theory Spec2Isabelle
  imports Main
begin

section \<open>The catalog document\<close>

text \<open>
  Modelled from the spec: the shape of a catalog document. The schema
  \<^verbatim>\<open>songs.schema.json\<close> and the bindings generated from it
  (\<^verbatim>\<open>src/models/SongData.ts\<close>) are not part of the sources at hand, so the
  records below follow section 3 of the specification: a field the specification calls
  optional is an \<open>option\<close>, integers are unbounded \<open>int\<close>s (every number of a
  document is taken to be exactly representable), and an object that is only ever read
  by key is an association list read with \<open>map_of\<close>.  Only the fields the validator
  reads are kept.  The fields of \<^verbatim>\<open>defaults\<close> carry the prefix \<open>default_\<close>,
  since a record field name is global.
\<close>

record difficulty =
  key :: string

record meta =
  styles :: "string list"
  difficulties :: "difficulty list"
  flags :: "string list"
  lvlMax :: int
  usesDrawGroups :: "bool option"

record defaults =
  default_style :: "string option"
  default_difficulties :: "string list"
  default_flags :: "string list"
  lowerLvlBound :: int
  upperLvlBound :: int

type_synonym dict = "(string \<times> string) list"

text \<open>
  One locale of \<^verbatim>\<open>i18n\<close>: display strings by key, and the nested
  \<^verbatim>\<open>$abbr\<close> dictionary of abbreviations, which is \<open>None\<close> when the locale
  object has no \<^verbatim>\<open>$abbr\<close> entry.
\<close>

record i18nDict =
  strings :: dict
  abbr :: "dict option"

record chart =
  style :: string
  diffClass :: string
  lvl :: "int option"
  drawGroup :: "int option"

record song =
  name :: string
  jacket :: "string option"
  charts :: "chart list"

record dataFile =
  meta :: meta
  defaults :: defaults
  i18n :: "(string \<times> i18nDict) list"
  songs :: "song list"


section \<open>JavaScript values, as far as the validator looks at them\<close>

datatype jsval =
    JUndefined
  | JBoolean bool
  | JNumber int
  | JString string
  | JObject
  | JInherited

text \<open>
  \<open>JObject\<close> is some object (always truthy); \<open>JInherited\<close> is a member
  that a plain object inherits from \<^verbatim>\<open>Object.prototype\<close> (a function, or the
  prototype itself for \<^verbatim>\<open>__proto__\<close>), also always truthy.
\<close>

fun truthy :: "jsval \<Rightarrow> bool" where
  "truthy JUndefined = False"
| "truthy (JBoolean b) = b"
| "truthy (JNumber n) = (n \<noteq> 0)"
| "truthy (JString s) = (s \<noteq> [])"
| "truthy JObject = True"
| "truthy JInherited = True"

definition js_boolean :: "bool option \<Rightarrow> jsval" where
  "js_boolean v = (case v of None \<Rightarrow> JUndefined | Some b \<Rightarrow> JBoolean b)"

definition js_number :: "int option \<Rightarrow> jsval" where
  "js_number v = (case v of None \<Rightarrow> JUndefined | Some n \<Rightarrow> JNumber n)"

text \<open>\<^verbatim>\<open>a > b\<close> where \<open>a\<close> may be \<^verbatim>\<open>undefined\<close>: the comparison with
  \<^verbatim>\<open>NaN\<close> is false.\<close>

definition js_gt :: "int option \<Rightarrow> int \<Rightarrow> bool" where
  "js_gt a b = (case a of None \<Rightarrow> False | Some n \<Rightarrow> n > b)"

text \<open>The names every plain object inherits from \<^verbatim>\<open>Object.prototype\<close>.\<close>

definition object_prototype_names :: "string list" where
  "object_prototype_names =
     [''constructor'', ''__proto__'', ''hasOwnProperty'', ''isPrototypeOf'',
      ''propertyIsEnumerable'', ''toLocaleString'', ''toString'', ''valueOf'',
      ''__defineGetter__'', ''__defineSetter__'', ''__lookupGetter__'',
      ''__lookupSetter__'']"

text \<open>What a plain object yields for a name it has no own entry for.\<close>

definition inherited :: "string \<Rightarrow> jsval" where
  "inherited k = (if k \<in> set object_prototype_names then JInherited else JUndefined)"

text \<open>\<^verbatim>\<open>d[k]\<close> on a dictionary of strings: the own entry if there is one,
  else what the prototype has under that name.\<close>

definition dict_get :: "dict \<Rightarrow> string \<Rightarrow> jsval" where
  "dict_get d k = (case map_of d k of Some s \<Rightarrow> JString s | None \<Rightarrow> inherited k)"

text \<open>The own entry of a locale object under \<open>k\<close>: the key \<^verbatim>\<open>$abbr\<close>
  holds the nested dictionary, every other key a string.\<close>

definition own_property :: "i18nDict \<Rightarrow> string \<Rightarrow> jsval option" where
  "own_property l k =
     (if k = ''$abbr''
      then (case abbr l of None \<Rightarrow> None | Some d \<Rightarrow> Some JObject)
      else (case map_of (strings l) k of None \<Rightarrow> None | Some s \<Rightarrow> Some (JString s)))"

text \<open>\<^verbatim>\<open>locale[k]\<close>.\<close>

definition locale_get :: "i18nDict \<Rightarrow> string \<Rightarrow> jsval" where
  "locale_get l k = (case own_property l k of Some v \<Rightarrow> v | None \<Rightarrow> inherited k)"

datatype exn = TypeError


section \<open>validateContents (scripts/validate.mjs)\<close>

definition push :: "string list \<Rightarrow> string \<Rightarrow> string list" where
  "push errors e = errors @ [e]"

text \<open>
  The body of the loop over \<^verbatim>\<open>allKeys\<close>.  \<^verbatim>\<open>dataFile.i18n.en\<close> is
  \<open>None\<close> when the document has no English locale: reading \<^verbatim>\<open>[key]\<close> from
  it throws.  \<^verbatim>\<open>x["$abbr"][key]\<close> throws when \<^verbatim>\<open>x\<close> has no
  \<^verbatim>\<open>$abbr\<close>; the right operand of \<^verbatim>\<open>&&\<close> is evaluated only when
  the left one is truthy.
\<close>

definition translation_check ::
  "string list \<Rightarrow> i18nDict option \<Rightarrow> i18nDict \<Rightarrow> string \<Rightarrow> string list \<Rightarrow> exn + string list" where
  "translation_check difficulties_set en ja k errors =
     (case en of
        None \<Rightarrow> Inl TypeError
      | Some en' \<Rightarrow>
          let errors1 =
                (if \<not> (truthy (locale_get en' k) \<and> truthy (locale_get ja k))
                 then push errors (''missing translation for '' @ k)
                 else errors)
          in if k \<in> set difficulties_set
             then (case abbr en' of
                     None \<Rightarrow> Inl TypeError
                   | Some en_abbr \<Rightarrow>
                       if truthy (dict_get en_abbr k)
                       then (case abbr ja of
                               None \<Rightarrow> Inl TypeError
                             | Some ja_abbr \<Rightarrow>
                                 if truthy (dict_get ja_abbr k)
                                 then Inr errors1
                                 else Inr (push errors1
                                        (''missing abbreviated translation for '' @ k)))
                       else Inr (push errors1
                              (''missing abbreviated translation for '' @ k)))
             else Inr errors1)"

fun translation_loop ::
  "string list \<Rightarrow> i18nDict option \<Rightarrow> i18nDict \<Rightarrow> string list \<Rightarrow> string list \<Rightarrow> exn + string list" where
  "translation_loop difficulties_set en ja [] errors = Inr errors"
| "translation_loop difficulties_set en ja (k # ks) errors =
     (case translation_check difficulties_set en ja k errors of
        Inl e \<Rightarrow> Inl e
      | Inr errors' \<Rightarrow> translation_loop difficulties_set en ja ks errors')"

definition chart_check ::
  "string list \<Rightarrow> string list \<Rightarrow> meta \<Rightarrow> song \<Rightarrow> chart \<Rightarrow> string list \<Rightarrow> string list" where
  "chart_check styles_set difficulties_set m s c errors =
     (let errors1 =
            (if style c \<notin> set styles_set
             then push errors (''unrecognized style '' @ [CHR 0x22] @ style c @ [CHR 0x22]
                               @ '' used by '' @ name s)
             else errors);
          errors2 =
            (if diffClass c \<notin> set difficulties_set
             then push errors1 (''unrecognized diffClass '' @ [CHR 0x22] @ diffClass c
                                @ [CHR 0x22] @ '' used by '' @ name s)
             else errors1)
      in if truthy (js_boolean (usesDrawGroups m))
         then (if \<not> truthy (js_number (drawGroup c))
               then push errors2 (name s @ '' is missing a draw group'')
               else if js_gt (drawGroup c) (lvlMax m)
               then push errors2 (name s @ '' has draw group above max'')
               else errors2)
         else (if js_gt (lvl c) (lvlMax m)
               then push errors2 (name s @ '' has chart above level max'')
               else errors2))"

fun chart_loop ::
  "string list \<Rightarrow> string list \<Rightarrow> meta \<Rightarrow> song \<Rightarrow> chart list \<Rightarrow> string list \<Rightarrow> string list" where
  "chart_loop styles_set difficulties_set m s [] errors = errors"
| "chart_loop styles_set difficulties_set m s (c # cs) errors =
     chart_loop styles_set difficulties_set m s cs
       (chart_check styles_set difficulties_set m s c errors)"

text \<open>
  \<open>jacketExists j\<close> stands for \<^verbatim>\<open>existsSync(join(jacketsDir, j))\<close>: the state
  of the jackets directory is a parameter.
\<close>

definition song_check ::
  "(string \<Rightarrow> bool) \<Rightarrow> string list \<Rightarrow> string list \<Rightarrow> meta \<Rightarrow> song \<Rightarrow> string list \<Rightarrow> string list" where
  "song_check jacketExists styles_set difficulties_set m s errors =
     (let errors1 =
            (case jacket s of
               None \<Rightarrow> errors
             | Some j \<Rightarrow>
                 if truthy (JString j)
                 then (if \<not> jacketExists j
                       then push errors (''missing jacket image '' @ j)
                       else errors)
                 else errors)
      in chart_loop styles_set difficulties_set m s (charts s) errors1)"

fun song_loop ::
  "(string \<Rightarrow> bool) \<Rightarrow> string list \<Rightarrow> string list \<Rightarrow> meta \<Rightarrow> song list \<Rightarrow> string list \<Rightarrow> string list" where
  "song_loop jacketExists styles_set difficulties_set m [] errors = errors"
| "song_loop jacketExists styles_set difficulties_set m (s # ss) errors =
     song_loop jacketExists styles_set difficulties_set m ss
       (song_check jacketExists styles_set difficulties_set m s errors)"

definition validateContents :: "(string \<Rightarrow> bool) \<Rightarrow> dataFile \<Rightarrow> exn + string list" where
  "validateContents jacketExists dataFile =
     (let errors = [];
          allKeys = styles (meta dataFile) @ map key (difficulties (meta dataFile))
                    @ flags (meta dataFile);
          styles_set = styles (meta dataFile);
          difficulties_set = map key (difficulties (meta dataFile));
          flags_set = flags (meta dataFile);
          errors = (if lvlMax (meta dataFile) < 1
                    then push errors ''max level is below 1'' else errors);
          errors = (case default_style (defaults dataFile) of
                      None \<Rightarrow> errors
                    | Some st \<Rightarrow>
                        if truthy (JString st) \<and> st \<notin> set styles_set
                        then push errors ''default style is not listed in meta''
                        else errors);
          errors = (if list_ex (\<lambda>d. d \<notin> set difficulties_set)
                         (default_difficulties (defaults dataFile))
                    then push errors ''some default difficulties are missing from meta''
                    else errors);
          errors = (if lowerLvlBound (defaults dataFile) > upperLvlBound (defaults dataFile)
                    then push errors ''default level bounds are reversed'' else errors);
          errors = (if lowerLvlBound (defaults dataFile) > lvlMax (meta dataFile)
                       \<or> upperLvlBound (defaults dataFile) > lvlMax (meta dataFile)
                    then push errors ''default level bounds are beyond max level''
                    else errors)
      in case (case map_of (i18n dataFile) ''ja'' of
                 None \<Rightarrow> Inr errors
               | Some ja \<Rightarrow>
                   translation_loop difficulties_set (map_of (i18n dataFile) ''en'') ja
                     allKeys errors) of
           Inl e \<Rightarrow> Inl e
         | Inr errors \<Rightarrow>
             Inr (song_loop jacketExists styles_set difficulties_set (meta dataFile)
                    (songs dataFile) errors))"

section \<open>getDiffAbbr (src/game-data-utils.tsx)\<close>

text \<open>
  \<^verbatim>\<open>gameData.i18n.en["$abbr"][diffClass]\<close>; the casts of the source are erased at
  run time.  Reading a property of \<^verbatim>\<open>undefined\<close> throws.
\<close>

definition getDiffAbbr :: "dataFile \<Rightarrow> string \<Rightarrow> exn + jsval" where
  "getDiffAbbr gameData dc =
     (case map_of (i18n gameData) ''en'' of
        None \<Rightarrow> Inl TypeError
      | Some en \<Rightarrow>
          (case abbr en of
             None \<Rightarrow> Inl TypeError
           | Some en_abbr \<Rightarrow> Inr (dict_get en_abbr dc)))"


section \<open>The validation run (scripts/validate.mjs, top level)\<close>

text \<open>
  The result of \<^verbatim>\<open>validateJSONSchema\<close> (package \<^verbatim>\<open>jsonschema\<close>), as far
  as the script reads it: \<^verbatim>\<open>result.valid\<close>, and \<^verbatim>\<open>error.toString()\<close> for
  each of \<^verbatim>\<open>result.errors\<close>.
\<close>

record validatorResult =
  valid :: bool
  result_errors :: "string list"

datatype console_line = ConsoleError string | ConsoleLog string

text \<open>
  One turn of the loop over \<^verbatim>\<open>dataFileNames\<close>.  The imported JSON value has
  an arbitrary type \<open>'json\<close>: a document that fails the schema need not have the shape
  of \<open>dataFile\<close>.  The schema validator is a parameter, and \<open>view\<close> reads a
  document that passed it as a \<open>dataFile\<close>.  The state is the console output so far
  and \<^verbatim>\<open>hasError\<close>.
\<close>

definition process_file ::
  "('json \<Rightarrow> validatorResult) \<Rightarrow> ('json \<Rightarrow> dataFile) \<Rightarrow> (string \<Rightarrow> bool)
   \<Rightarrow> string \<times> 'json \<Rightarrow> console_line list \<times> bool
   \<Rightarrow> exn + console_line list \<times> bool" where
  "process_file validateJSONSchema view jacketExists file st =
     (case file of (fileName, songData) \<Rightarrow>
      case st of (out, hasError) \<Rightarrow>
        let result = validateJSONSchema songData
        in if valid result
           then (case validateContents jacketExists (view songData) of
                   Inl e \<Rightarrow> Inl e
                 | Inr consistencyErrors \<Rightarrow>
                     if length consistencyErrors \<noteq> 0
                     then Inr (out @ map (\<lambda>err. ConsoleError ('' * '' @ err)) consistencyErrors
                                 @ [ConsoleLog ([CHR 0x0A] @ fileName
                                                 @ '' has inconsistent data!'')],
                               True)
                     else Inr (out @ [ConsoleLog (fileName @ '' looks good!'')], hasError))
           else Inr (out @ map ConsoleError (result_errors result)
                       @ [ConsoleLog (fileName @ '' has issues!'')],
                     True))"

text \<open>The loop; an exception leaves it with the state reached before the failing file.\<close>

fun main_loop ::
  "('json \<Rightarrow> validatorResult) \<Rightarrow> ('json \<Rightarrow> dataFile) \<Rightarrow> (string \<Rightarrow> bool)
   \<Rightarrow> (string \<times> 'json) list \<Rightarrow> console_line list \<times> bool
   \<Rightarrow> (console_line list \<times> bool) \<times> exn option" where
  "main_loop validateJSONSchema view jacketExists [] st = (st, None)"
| "main_loop validateJSONSchema view jacketExists (file # files) st =
     (case process_file validateJSONSchema view jacketExists file st of
        Inl e \<Rightarrow> (st, Some e)
      | Inr st' \<Rightarrow> main_loop validateJSONSchema view jacketExists files st')"

definition schemaLocation :: string where
  "schemaLocation = ''src/models/SongData.ts''"

definition bannerComment :: string where
  "bannerComment =
     [CHR 0x0A] @ ''/**'' @ [CHR 0x0A]
     @ '' * This file was automatically generated by json-schema-to-typescript. DO NOT MODIFY IT BY HAND.''
     @ [CHR 0x0A]
     @ '' * Instead, modify '' @ [CHR 0x60] @ ''songs.schema.json'' @ [CHR 0x60]
     @ '' and run '' @ [CHR 0x60] @ ''yarn validate'' @ [CHR 0x60]
     @ '' to regenerate the SongData types'' @ [CHR 0x0A]
     @ '' * here as well as checking that the data files match.'' @ [CHR 0x0A]
     @ '' */''"

text \<open>
  The files a run reads and writes.  \<open>songFiles\<close> is the listing of
  \<^verbatim>\<open>src/songs\<close> in the order \<^verbatim>\<open>readdirSync\<close> gives it, each name with
  the JSON value its import yields; \<open>schemaFile\<close> is the content of the file at
  \<open>schemaLocation\<close>, if there is one; \<open>jacketFiles j\<close> says whether
  \<^verbatim>\<open>join(jacketsDir, j)\<close> exists, for the paths that are not that file.
\<close>

record 'json files =
  songFiles :: "(string \<times> 'json) list"
  jacketFiles :: "string \<Rightarrow> bool"
  schemaFile :: "string option"

text \<open>
  \<^verbatim>\<open>existsSync(join(jacketsDir, j))\<close> on these files.  A jacket name may lead out
  of the jackets directory (\<^verbatim>\<open>../../models/SongData.ts\<close>); \<open>atSchemaLocation j\<close>
  says that the joined path is the file at \<open>schemaLocation\<close>, the one file the run
  writes.
\<close>

definition jacketExists_in :: "(string \<Rightarrow> bool) \<Rightarrow> 'json files \<Rightarrow> string \<Rightarrow> bool" where
  "jacketExists_in atSchemaLocation fs j =
     (if atSchemaLocation j then schemaFile fs \<noteq> None else jacketFiles fs j)"

datatype status = Uncaught exn | Exit nat | Completed

record run_output =
  console :: "console_line list"
  outcome :: status

text \<open>
  The whole script.  \<open>compile\<close> is \<^verbatim>\<open>json-schema-to-typescript\<close> applied to
  the schema: a parameter taking the type name and the banner.  \<^verbatim>\<open>console.log\<close>
  joins its two arguments with a space.  The result is what was printed, how the process
  ended, and the files as the run leaves them.
\<close>

definition main ::
  "('json \<Rightarrow> validatorResult) \<Rightarrow> ('json \<Rightarrow> dataFile) \<Rightarrow> (string \<Rightarrow> string \<Rightarrow> string)
   \<Rightarrow> (string \<Rightarrow> bool) \<Rightarrow> 'json files \<Rightarrow> run_output \<times> 'json files" where
  "main validateJSONSchema view compile atSchemaLocation fs =
     (case main_loop validateJSONSchema view (jacketExists_in atSchemaLocation fs)
             (songFiles fs) ([], False) of
        ((out, hasError), Some e) \<Rightarrow> (\<lparr>console = out, outcome = Uncaught e\<rparr>, fs)
      | ((out, hasError), None) \<Rightarrow>
          if hasError
          then (\<lparr>console = out, outcome = Exit 1\<rparr>, fs)
          else (let out1 = out @ [ConsoleLog ''Building schema file''];
                    ts = compile ''SongData'' bannerComment;
                    fs1 = fs\<lparr>schemaFile := Some ts\<rparr>;
                    out2 = out1 @ [ConsoleLog (''Schema written to '' @ '' '' @ schemaLocation)]
                in (\<lparr>console = out2, outcome = Completed\<rparr>, fs1)))"


section \<open>Structural validity\<close>

text \<open>
  Modelled from the spec: what \<^verbatim>\<open>songs.schema.json\<close> (not among the sources)
  demands beyond the types above.  Section 3 of the specification: the locale
  \<^verbatim>\<open>en\<close> is required, and each locale comes with a nested \<^verbatim>\<open>$abbr\<close>
  sub-dictionary.
\<close>

definition schema_valid :: "dataFile \<Rightarrow> bool" where
  "schema_valid D =
     (map_of (i18n D) ''en'' \<noteq> None \<and> list_all (\<lambda>(n, l). abbr l \<noteq> None) (i18n D))"


section \<open>The checks, one by one\<close>

text \<open>Each check of section 4.1 of the specification with the errors it adds, as a list
  of its own; the conditions and the messages are those of the source.\<close>

definition allKeys :: "meta \<Rightarrow> string list" where
  "allKeys m = styles m @ map key (difficulties m) @ flags m"

definition level_max_errors :: "dataFile \<Rightarrow> string list" where
  "level_max_errors D = (if lvlMax (meta D) < 1 then [''max level is below 1''] else [])"

definition default_style_errors :: "dataFile \<Rightarrow> string list" where
  "default_style_errors D =
     (case default_style (defaults D) of
        None \<Rightarrow> []
      | Some st \<Rightarrow>
          if st \<noteq> [] \<and> st \<notin> set (styles (meta D))
          then [''default style is not listed in meta''] else [])"

definition default_difficulties_errors :: "dataFile \<Rightarrow> string list" where
  "default_difficulties_errors D =
     (if list_all (\<lambda>d. d \<in> set (map key (difficulties (meta D))))
           (default_difficulties (defaults D))
      then [] else [''some default difficulties are missing from meta''])"

definition bounds_reversed_errors :: "dataFile \<Rightarrow> string list" where
  "bounds_reversed_errors D =
     (if lowerLvlBound (defaults D) > upperLvlBound (defaults D)
      then [''default level bounds are reversed''] else [])"

definition bounds_beyond_max_errors :: "dataFile \<Rightarrow> string list" where
  "bounds_beyond_max_errors D =
     (if lowerLvlBound (defaults D) > lvlMax (meta D)
         \<or> upperLvlBound (defaults D) > lvlMax (meta D)
      then [''default level bounds are beyond max level''] else [])"

definition abbr_truthy :: "i18nDict \<Rightarrow> string \<Rightarrow> bool" where
  "abbr_truthy l k = (case abbr l of None \<Rightarrow> False | Some d \<Rightarrow> truthy (dict_get d k))"

definition key_errors :: "meta \<Rightarrow> i18nDict \<Rightarrow> i18nDict \<Rightarrow> string \<Rightarrow> string list" where
  "key_errors m en ja k =
     (if truthy (locale_get en k) \<and> truthy (locale_get ja k)
      then [] else [''missing translation for '' @ k])
     @ (if k \<in> set (map key (difficulties m)) \<and> \<not> (abbr_truthy en k \<and> abbr_truthy ja k)
        then [''missing abbreviated translation for '' @ k] else [])"

definition translation_errors :: "dataFile \<Rightarrow> string list" where
  "translation_errors D =
     (case map_of (i18n D) ''ja'' of
        None \<Rightarrow> []
      | Some ja \<Rightarrow>
          (case map_of (i18n D) ''en'' of
             None \<Rightarrow> []
           | Some en \<Rightarrow> concat (map (key_errors (meta D) en ja) (allKeys (meta D)))))"

definition jacket_errors :: "(string \<Rightarrow> bool) \<Rightarrow> song \<Rightarrow> string list" where
  "jacket_errors jacketExists s =
     (case jacket s of
        None \<Rightarrow> []
      | Some j \<Rightarrow> if j \<noteq> [] \<and> \<not> jacketExists j then [''missing jacket image '' @ j] else [])"

definition chart_style_errors :: "meta \<Rightarrow> song \<Rightarrow> chart \<Rightarrow> string list" where
  "chart_style_errors m s c =
     (if style c \<in> set (styles m) then []
      else [''unrecognized style '' @ [CHR 0x22] @ style c @ [CHR 0x22] @ '' used by '' @ name s])"

definition chart_diffClass_errors :: "meta \<Rightarrow> song \<Rightarrow> chart \<Rightarrow> string list" where
  "chart_diffClass_errors m s c =
     (if diffClass c \<in> set (map key (difficulties m)) then []
      else [''unrecognized diffClass '' @ [CHR 0x22] @ diffClass c @ [CHR 0x22]
            @ '' used by '' @ name s])"

definition chart_level_errors :: "meta \<Rightarrow> song \<Rightarrow> chart \<Rightarrow> string list" where
  "chart_level_errors m s c =
     (if usesDrawGroups m = Some True
      then (case drawGroup c of
              None \<Rightarrow> [name s @ '' is missing a draw group'']
            | Some g \<Rightarrow>
                if g = 0 then [name s @ '' is missing a draw group'']
                else if g > lvlMax m then [name s @ '' has draw group above max'']
                else [])
      else (case lvl c of
              None \<Rightarrow> []
            | Some l \<Rightarrow> if l > lvlMax m then [name s @ '' has chart above level max''] else []))"

definition chart_errors :: "meta \<Rightarrow> song \<Rightarrow> chart \<Rightarrow> string list" where
  "chart_errors m s c =
     chart_style_errors m s c @ chart_diffClass_errors m s c @ chart_level_errors m s c"

definition song_errors :: "(string \<Rightarrow> bool) \<Rightarrow> meta \<Rightarrow> song \<Rightarrow> string list" where
  "song_errors jacketExists m s =
     jacket_errors jacketExists s @ concat (map (chart_errors m s) (charts s))"

definition prefix_errors :: "dataFile \<Rightarrow> string list" where
  "prefix_errors D =
     level_max_errors D @ default_style_errors D @ default_difficulties_errors D
     @ bounds_reversed_errors D @ bounds_beyond_max_errors D"

text \<open>The order the specification gives: the checks in their order, the keys in the
  order of \<^verbatim>\<open>allKeys\<close>, the songs and their charts in document order.\<close>

definition errors_in_order :: "(string \<Rightarrow> bool) \<Rightarrow> dataFile \<Rightarrow> string list" where
  "errors_in_order jacketExists D =
     level_max_errors D @ default_style_errors D @ default_difficulties_errors D
     @ bounds_reversed_errors D @ bounds_beyond_max_errors D
     @ translation_errors D
     @ concat (map (song_errors jacketExists (meta D)) (songs D))"


section \<open>The invariants of the data model\<close>

text \<open>
  Section 3 of the specification, invariant by invariant.  A locale has a translation
  for a key when it has an own entry for it that is not the empty string, and an
  abbreviation when its \<^verbatim>\<open>$abbr\<close> dictionary has such an entry.
\<close>

definition has_translation :: "i18nDict \<Rightarrow> string \<Rightarrow> bool" where
  "has_translation l k = (case own_property l k of None \<Rightarrow> False | Some v \<Rightarrow> truthy v)"

definition has_abbreviation :: "i18nDict \<Rightarrow> string \<Rightarrow> bool" where
  "has_abbreviation l k =
     (case abbr l of
        None \<Rightarrow> False
      | Some d \<Rightarrow> (case map_of d k of None \<Rightarrow> False | Some a \<Rightarrow> a \<noteq> []))"

definition locale_complete :: "meta \<Rightarrow> i18nDict \<Rightarrow> bool" where
  "locale_complete m l =
     (list_all (has_translation l) (allKeys m)
      \<and> list_all (has_abbreviation l) (map key (difficulties m)))"

definition translations_complete :: "dataFile \<Rightarrow> bool" where
  "translations_complete D =
     list_all (\<lambda>(n, l). n = ''en'' \<or>
                 (case map_of (i18n D) ''en'' of
                    None \<Rightarrow> False
                  | Some en \<Rightarrow> locale_complete (meta D) en \<and> locale_complete (meta D) l))
       (i18n D)"

definition level_bounded :: "meta \<Rightarrow> chart \<Rightarrow> bool" where
  "level_bounded m c =
     (if usesDrawGroups m = Some True
      then (case drawGroup c of None \<Rightarrow> False | Some g \<Rightarrow> g \<le> lvlMax m)
      else (case lvl c of None \<Rightarrow> True | Some l \<Rightarrow> l \<le> lvlMax m))"

definition semantic_invariants :: "(string \<Rightarrow> bool) \<Rightarrow> dataFile \<Rightarrow> bool" where
  "semantic_invariants jacketExists D =
     (lvlMax (meta D) \<ge> 1
      \<and> (case default_style (defaults D) of
            None \<Rightarrow> True | Some st \<Rightarrow> st \<in> set (styles (meta D)))
      \<and> list_all (\<lambda>d. d \<in> set (map key (difficulties (meta D))))
            (default_difficulties (defaults D))
      \<and> lowerLvlBound (defaults D) \<le> upperLvlBound (defaults D)
      \<and> upperLvlBound (defaults D) \<le> lvlMax (meta D)
      \<and> translations_complete D
      \<and> list_all (\<lambda>s. case jacket s of None \<Rightarrow> True | Some j \<Rightarrow> jacketExists j) (songs D)
      \<and> list_all (\<lambda>s. list_all (\<lambda>c. style c \<in> set (styles (meta D))
                                     \<and> diffClass c \<in> set (map key (difficulties (meta D)))
                                     \<and> level_bounded (meta D) c) (charts s))
            (songs D))"

section \<open>Example documents\<close>

definition en_locale :: i18nDict where
  "en_locale =
     \<lparr>strings = [(''single'', ''Single''), (''basic'', ''Basic''), (''shock'', ''Shock Arrows'')],
      abbr = Some [(''basic'', ''B'')]\<rparr>"

definition ja_locale :: i18nDict where
  "ja_locale =
     \<lparr>strings = [(''single'', ''SINGLE''), (''basic'', ''BASIC''), (''shock'', ''SHOCK'')],
      abbr = Some [(''basic'', ''b'')]\<rparr>"

definition example_meta :: meta where
  "example_meta =
     \<lparr>styles = [''single''], difficulties = [\<lparr>key = ''basic''\<rparr>], flags = [''shock''],
      lvlMax = 19, usesDrawGroups = None\<rparr>"

definition example_defaults :: defaults where
  "example_defaults =
     \<lparr>default_style = Some ''single'', default_difficulties = [''basic''],
      default_flags = [''shock''], lowerLvlBound = 1, upperLvlBound = 19\<rparr>"

definition example_chart :: chart where
  "example_chart = \<lparr>style = ''single'', diffClass = ''basic'', lvl = Some 5, drawGroup = None\<rparr>"

definition example_song :: song where
  "example_song = \<lparr>name = ''Song A'', jacket = Some ''a.png'', charts = [example_chart]\<rparr>"

definition example_doc :: dataFile where
  "example_doc =
     \<lparr>meta = example_meta, defaults = example_defaults,
      i18n = [(''en'', en_locale), (''ja'', ja_locale)], songs = [example_song]\<rparr>"

definition example_jackets :: "string \<Rightarrow> bool" where
  "example_jackets j = (j = ''a.png'')"

text \<open>Draw groups in use, and the one chart has draw group 0 (and a level as well).\<close>

definition doc_draw_group_zero :: dataFile where
  "doc_draw_group_zero =
     example_doc
       \<lparr>meta := example_meta\<lparr>usesDrawGroups := Some True\<rparr>,
        songs := [example_song\<lparr>charts := [example_chart\<lparr>drawGroup := Some 0\<rparr>]\<rparr>]\<rparr>"

text \<open>Draw groups in use, and the one chart has draw group 3.\<close>

definition doc_draw_groups :: dataFile where
  "doc_draw_groups =
     example_doc
       \<lparr>meta := example_meta\<lparr>usesDrawGroups := Some True\<rparr>,
        songs := [example_song\<lparr>charts := [example_chart\<lparr>drawGroup := Some 3\<rparr>]\<rparr>]\<rparr>"

text \<open>Draw groups in use, and the one chart has none.\<close>

definition doc_draw_group_absent :: dataFile where
  "doc_draw_group_absent = example_doc\<lparr>meta := example_meta\<lparr>usesDrawGroups := Some True\<rparr>\<rparr>"

text \<open>A Korean locale with no entries at all, and no Japanese one.\<close>

definition ko_locale :: i18nDict where
  "ko_locale = \<lparr>strings = [], abbr = Some []\<rparr>"

definition doc_korean :: dataFile where
  "doc_korean = example_doc\<lparr>i18n := [(''en'', en_locale), (''ko'', ko_locale)]\<rparr>"

text \<open>A style called \<^verbatim>\<open>constructor\<close> that neither locale has an entry for.\<close>

definition doc_constructor :: dataFile where
  "doc_constructor =
     example_doc\<lparr>meta := example_meta\<lparr>styles := [''single'', ''constructor'']\<rparr>\<rparr>"

text \<open>A Japanese locale that only translates \<^verbatim>\<open>basic\<close>, and abbreviates nothing.\<close>

definition doc_untranslated :: dataFile where
  "doc_untranslated =
     example_doc
       \<lparr>i18n := [(''en'', en_locale),
                 (''ja'', \<lparr>strings = [(''basic'', ''BASIC'')], abbr = Some []\<rparr>)]\<rparr>"

text \<open>An English locale without \<^verbatim>\<open>$abbr\<close>.\<close>

definition doc_no_abbr :: dataFile where
  "doc_no_abbr =
     example_doc
       \<lparr>i18n := [(''en'', en_locale\<lparr>abbr := None\<rparr>), (''ja'', ja_locale)]\<rparr>"

text \<open>A document that fails every kind of check once.\<close>

definition doc_many_errors :: dataFile where
  "doc_many_errors =
     \<lparr>meta = \<lparr>styles = [''single''], difficulties = [\<lparr>key = ''basic''\<rparr>], flags = [''shock''],
              lvlMax = 0, usesDrawGroups = None\<rparr>,
      defaults = \<lparr>default_style = Some ''double'', default_difficulties = [''expert''],
                  default_flags = [], lowerLvlBound = 5, upperLvlBound = 3\<rparr>,
      i18n = [(''en'', en_locale),
              (''ja'', \<lparr>strings = [(''single'', ''SINGLE'')], abbr = Some []\<rparr>)],
      songs = [\<lparr>name = ''Song A'', jacket = Some ''missing.png'',
                charts = [\<lparr>style = ''double'', diffClass = ''expert'', lvl = Some 15,
                           drawGroup = None\<rparr>]\<rparr>,
               \<lparr>name = ''Song B'', jacket = None,
                charts = [example_chart, example_chart\<lparr>style := ''couple''\<rparr>]\<rparr>]\<rparr>"

text \<open>The jacket of the one song is the generated bindings file.\<close>

definition doc_generated_jacket :: dataFile where
  "doc_generated_jacket =
     example_doc\<lparr>songs := [example_song\<lparr>jacket := Some ''../../models/SongData.ts''\<rparr>]\<rparr>"

text \<open>The message of the check that the source has commented out
  (\<^verbatim>\<open>// errors.push("some default flags are missing from meta")\<close>).\<close>

definition default_flags_message :: string where
  "default_flags_message = ''some default flags are missing from meta''"

text \<open>Inputs of a run, with natural numbers for JSON values: a validator that rejects
  the value \<open>0\<close>, the documents the values stand for, and a bindings generator.\<close>

definition example_validator :: "nat \<Rightarrow> validatorResult" where
  "example_validator j =
     (if j = 0 then \<lparr>valid = False, result_errors = [''instance.songs is not of a type(s) array'']\<rparr>
      else \<lparr>valid = True, result_errors = []\<rparr>)"

definition example_view :: "nat \<Rightarrow> dataFile" where
  "example_view j =
     (if j = 0 then doc_no_abbr else if j = 1 then example_doc
      else if j = 2 then doc_generated_jacket else doc_many_errors)"

definition example_compile :: "string \<Rightarrow> string \<Rightarrow> string" where
  "example_compile typeName banner = banner @ [CHR 0x0A] @ ''export type '' @ typeName @ '' = GameData;''"

text \<open>The files of a run: two documents, and bindings generated earlier.\<close>

definition example_files :: "nat files" where
  "example_files =
     \<lparr>songFiles = [(''a.json'', 1), (''b.json'', 2)], jacketFiles = example_jackets,
      schemaFile = Some ''stale''\<rparr>"

definition example_atSchemaLocation :: "string \<Rightarrow> bool" where
  "example_atSchemaLocation j = (j = ''../../models/SongData.ts'')"


section \<open>The loops append\<close>

lemma chart_check_eq:
  "chart_check (styles m) (map key (difficulties m)) m s c errors = errors @ chart_errors m s c"
  by (simp add: chart_check_def chart_errors_def chart_style_errors_def chart_diffClass_errors_def
      chart_level_errors_def push_def js_boolean_def js_number_def js_gt_def Let_def
      split: option.splits)

lemma chart_loop_eq:
  "chart_loop (styles m) (map key (difficulties m)) m s cs errors
     = errors @ concat (map (chart_errors m s) cs)"
  by (induction cs arbitrary: errors) (simp_all add: chart_check_eq)

lemma song_check_eq:
  "song_check je (styles m) (map key (difficulties m)) m s errors = errors @ song_errors je m s"
  by (simp add: song_check_def song_errors_def jacket_errors_def chart_loop_eq push_def
      split: option.splits)

lemma song_loop_eq:
  "song_loop je (styles m) (map key (difficulties m)) m ss errors
     = errors @ concat (map (song_errors je m) ss)"
  by (induction ss arbitrary: errors) (simp_all add: song_check_eq)

lemma translation_check_eq:
  "abbr en \<noteq> None \<Longrightarrow> abbr ja \<noteq> None \<Longrightarrow>
   translation_check (map key (difficulties m)) (Some en) ja k errors
     = Inr (errors @ key_errors m en ja k)"
  by (auto simp add: translation_check_def key_errors_def abbr_truthy_def push_def Let_def)

lemma translation_loop_eq:
  "abbr en \<noteq> None \<Longrightarrow> abbr ja \<noteq> None \<Longrightarrow>
   translation_loop (map key (difficulties m)) (Some en) ja ks errors
     = Inr (errors @ concat (map (key_errors m en ja) ks))"
  by (induction ks arbitrary: errors) (simp_all add: translation_check_eq)

text \<open>The function with its straight-line part and its last loop in closed form.\<close>

lemma validateContents_unfold:
  "validateContents je D =
     (case (case map_of (i18n D) ''ja'' of
              None \<Rightarrow> Inr (prefix_errors D)
            | Some ja \<Rightarrow>
                translation_loop (map key (difficulties (meta D))) (map_of (i18n D) ''en'') ja
                  (allKeys (meta D)) (prefix_errors D)) of
        Inl e \<Rightarrow> Inl e
      | Inr errs \<Rightarrow> Inr (errs @ concat (map (song_errors je (meta D)) (songs D))))"
proof -
  let ?ds = "map key (difficulties (meta D))"
  let ?e1 = "(if lvlMax (meta D) < 1 then push [] ''max level is below 1'' else [])"
  let ?e2 = "(case default_style (defaults D) of
                None \<Rightarrow> ?e1
              | Some st \<Rightarrow>
                  if truthy (JString st) \<and> st \<notin> set (styles (meta D))
                  then push ?e1 ''default style is not listed in meta''
                  else ?e1)"
  let ?e3 = "(if list_ex (\<lambda>d. d \<notin> set ?ds) (default_difficulties (defaults D))
              then push ?e2 ''some default difficulties are missing from meta''
              else ?e2)"
  let ?e4 = "(if lowerLvlBound (defaults D) > upperLvlBound (defaults D)
              then push ?e3 ''default level bounds are reversed'' else ?e3)"
  let ?e5 = "(if lowerLvlBound (defaults D) > lvlMax (meta D)
                 \<or> upperLvlBound (defaults D) > lvlMax (meta D)
              then push ?e4 ''default level bounds are beyond max level''
              else ?e4)"
  have unfold: "validateContents je D =
     (case (case map_of (i18n D) ''ja'' of
              None \<Rightarrow> Inr ?e5
            | Some ja \<Rightarrow> translation_loop ?ds (map_of (i18n D) ''en'') ja
                          (styles (meta D) @ ?ds @ flags (meta D)) ?e5) of
        Inl e \<Rightarrow> Inl e
      | Inr errs \<Rightarrow> Inr (song_loop je (styles (meta D)) ?ds (meta D) (songs D) errs))"
    by (simp only: validateContents_def Let_def)
  have e1: "?e1 = level_max_errors D"
    by (simp add: level_max_errors_def push_def)
  have e2: "?e2 = level_max_errors D @ default_style_errors D"
    unfolding e1 by (simp add: default_style_errors_def push_def split: option.splits)
  have e3: "?e3 = level_max_errors D @ default_style_errors D @ default_difficulties_errors D"
    unfolding e2 by (simp add: default_difficulties_errors_def push_def list_ex_iff list_all_iff)
  have e4: "?e4 = level_max_errors D @ default_style_errors D @ default_difficulties_errors D
                  @ bounds_reversed_errors D"
    unfolding e3 by (simp add: bounds_reversed_errors_def push_def)
  have e5: "?e5 = prefix_errors D"
    unfolding e4 by (simp add: bounds_beyond_max_errors_def prefix_errors_def push_def)
  show ?thesis
    unfolding unfold e5 song_loop_eq allKeys_def by (rule refl)
qed

lemma schema_valid_abbr:
  "schema_valid D \<Longrightarrow> map_of (i18n D) n = Some l \<Longrightarrow> abbr l \<noteq> None"
  by (auto simp add: schema_valid_def list_all_iff dest: map_of_SomeD)

lemma validateContents_schema_valid:
  assumes "schema_valid D"
  shows "validateContents je D = Inr (errors_in_order je D)"
proof -
  from assms obtain en where en: "map_of (i18n D) ''en'' = Some en"
    by (auto simp add: schema_valid_def)
  have en_abbr: "abbr en \<noteq> None"
    using assms en by (rule schema_valid_abbr)
  show ?thesis
  proof (cases "map_of (i18n D) ''ja''")
    case None
    then show ?thesis
      by (simp add: validateContents_unfold errors_in_order_def translation_errors_def
          prefix_errors_def)
  next
    case (Some ja)
    have "abbr ja \<noteq> None"
      using assms Some by (rule schema_valid_abbr)
    then show ?thesis
      using en en_abbr Some
      by (simp add: validateContents_unfold translation_loop_eq errors_in_order_def
          translation_errors_def prefix_errors_def)
  qed
qed

lemma draw_group_reported:
  assumes "usesDrawGroups m = Some True" "s \<in> set ss" "c \<in> set (charts s)"
    "\<not> truthy (js_number (drawGroup c))"
  shows "name s @ '' is missing a draw group'' \<in> set (concat (map (song_errors je m) ss))"
proof -
  have "name s @ '' is missing a draw group'' \<in> set (chart_level_errors m s c)"
    using assms(1,4) by (simp add: chart_level_errors_def js_number_def split: option.splits)
  then have "name s @ '' is missing a draw group'' \<in> set (chart_errors m s c)"
    by (simp add: chart_errors_def)
  then have "name s @ '' is missing a draw group'' \<in> set (song_errors je m s)"
    using assms(3) by (auto simp add: song_errors_def)
  then show ?thesis
    using assms(2) by auto
qed


section \<open>A consistent document passes every check\<close>

lemma has_translation_truthy: "has_translation l k \<Longrightarrow> truthy (locale_get l k)"
  by (simp add: has_translation_def locale_get_def split: option.splits)

lemma has_abbreviation_truthy:
  "has_abbreviation l k \<Longrightarrow> \<exists>d. abbr l = Some d \<and> truthy (dict_get d k)"
  by (auto simp add: has_abbreviation_def dict_get_def split: option.splits)

lemma translation_check_complete:
  assumes "has_translation en k" "has_translation ja k"
    "k \<in> set ds \<Longrightarrow> has_abbreviation en k \<and> has_abbreviation ja k"
  shows "translation_check ds (Some en) ja k errors = Inr errors"
proof (cases "k \<in> set ds")
  case True
  with assms(3) obtain d1 d2 where
    "abbr en = Some d1" "truthy (dict_get d1 k)" "abbr ja = Some d2" "truthy (dict_get d2 k)"
    using has_abbreviation_truthy by blast
  with True assms(1,2) show ?thesis
    by (simp add: translation_check_def has_translation_truthy)
next
  case False
  with assms(1,2) show ?thesis
    by (simp add: translation_check_def has_translation_truthy)
qed

lemma translation_loop_complete:
  assumes "\<And>k. k \<in> set ks \<Longrightarrow> has_translation en k \<and> has_translation ja k"
    "\<And>k. k \<in> set ks \<Longrightarrow> k \<in> set ds \<Longrightarrow> has_abbreviation en k \<and> has_abbreviation ja k"
  shows "translation_loop ds (Some en) ja ks errors = Inr errors"
  using assms by (induction ks) (simp_all add: translation_check_complete)

lemma locale_complete_loop:
  assumes "locale_complete m en" "locale_complete m ja"
  shows "translation_loop (map key (difficulties m)) (Some en) ja (allKeys m) errors = Inr errors"
proof (rule translation_loop_complete)
  fix k assume "k \<in> set (allKeys m)"
  with assms show "has_translation en k \<and> has_translation ja k"
    by (simp add: locale_complete_def list_all_iff)
next
  fix k assume "k \<in> set (map key (difficulties m))"
  with assms show "has_abbreviation en k \<and> has_abbreviation ja k"
    by (auto simp add: locale_complete_def list_all_iff)
qed

lemma prefix_errors_invariants: "semantic_invariants je D \<Longrightarrow> prefix_errors D = []"
  by (auto simp add: semantic_invariants_def prefix_errors_def level_max_errors_def
      default_style_errors_def default_difficulties_errors_def bounds_reversed_errors_def
      bounds_beyond_max_errors_def split: option.splits)

lemma chart_errors_invariants:
  assumes "style c \<in> set (styles m)" "diffClass c \<in> set (map key (difficulties m))"
    "level_bounded m c" "usesDrawGroups m = Some True \<longrightarrow> drawGroup c \<noteq> Some 0"
  shows "chart_errors m s c = []"
  using assms
  by (auto simp add: chart_errors_def chart_style_errors_def chart_diffClass_errors_def
      chart_level_errors_def level_bounded_def split: option.splits if_splits)

lemma song_errors_invariants:
  assumes "semantic_invariants je D" "s \<in> set (songs D)"
    "usesDrawGroups (meta D) = Some True \<longrightarrow> (\<forall>c \<in> set (charts s). drawGroup c \<noteq> Some 0)"
  shows "song_errors je (meta D) s = []"
proof -
  have "jacket_errors je s = []"
    using assms(1,2)
    by (auto simp add: semantic_invariants_def jacket_errors_def list_all_iff split: option.splits)
  moreover have "chart_errors (meta D) s c = []" if "c \<in> set (charts s)" for c
    using assms that
    by (intro chart_errors_invariants) (auto simp add: semantic_invariants_def list_all_iff)
  ultimately show ?thesis
    by (simp add: song_errors_def)
qed

section \<open>Every key of the translation loop leaves its errors\<close>

lemma locale_get_own:
  "k \<notin> set object_prototype_names \<Longrightarrow> truthy (locale_get l k) = has_translation l k"
  by (simp add: locale_get_def has_translation_def inherited_def split: option.splits)

lemma abbr_truthy_own:
  "k \<notin> set object_prototype_names \<Longrightarrow> abbr_truthy l k = has_abbreviation l k"
  by (simp add: abbr_truthy_def has_abbreviation_def dict_get_def inherited_def
      split: option.splits)

lemma count_list_concat_map_ge:
  "x \<in> set (f k) \<Longrightarrow> count_list ks k \<le> count_list (concat (map f ks)) x"
proof (induction ks)
  case Nil
  then show ?case by simp
next
  case (Cons a ks)
  have "1 \<le> count_list (f k) x"
    using Cons.prems count_list_0_iff [of "f k" x] by (cases "count_list (f k) x") simp_all
  with Cons show ?case by auto
qed

lemma count_list_translation_errors:
  assumes "map_of (i18n D) ''en'' = Some en" "map_of (i18n D) ''ja'' = Some ja"
    "x \<in> set (key_errors (meta D) en ja k)"
  shows "count_list (allKeys (meta D)) k \<le> count_list (errors_in_order je D) x"
proof -
  have "count_list (allKeys (meta D)) k \<le> count_list (translation_errors D) x"
    using assms by (simp add: translation_errors_def count_list_concat_map_ge)
  then show ?thesis
    by (simp add: errors_in_order_def)
qed

section \<open>The default flags are never looked at\<close>

lemma neq_by_last: "last a \<noteq> last b \<Longrightarrow> a \<noteq> b"
  by auto

lemma neq_by_hd: "hd a \<noteq> hd b \<Longrightarrow> a \<noteq> b"
  by auto

lemma prefix_errors_no_flags: "default_flags_message \<notin> set (prefix_errors D)"
  by (simp add: prefix_errors_def level_max_errors_def default_style_errors_def
      default_difficulties_errors_def bounds_reversed_errors_def bounds_beyond_max_errors_def
      default_flags_message_def split: option.splits)

lemma song_errors_no_flags: "default_flags_message \<notin> set (song_errors je m s)"
proof -
  have j: "default_flags_message \<notin> set (jacket_errors je s)"
    by (auto simp add: jacket_errors_def default_flags_message_def split: option.splits)
  have c: "default_flags_message \<notin> set (chart_errors m s c)" for c
  proof -
    have 1: "default_flags_message \<notin> set (chart_style_errors m s c)"
      by (simp add: chart_style_errors_def default_flags_message_def)
    have 2: "default_flags_message \<notin> set (chart_diffClass_errors m s c)"
      by (simp add: chart_diffClass_errors_def default_flags_message_def)
    have l: "default_flags_message \<noteq> name s @ '' is missing a draw group''"
      "default_flags_message \<noteq> name s @ '' has draw group above max''"
      "default_flags_message \<noteq> name s @ '' has chart above level max''"
      by (rule neq_by_last, simp add: default_flags_message_def)+
    have 3: "default_flags_message \<notin> set (chart_level_errors m s c)"
      using l by (simp add: chart_level_errors_def split: option.splits)
    show ?thesis
      using 1 2 3 by (simp add: chart_errors_def)
  qed
  show ?thesis
    using j c by (simp add: song_errors_def)
qed

lemma translation_check_no_flags:
  assumes "translation_check ds en ja k errors = Inr errs" "default_flags_message \<notin> set errors"
  shows "default_flags_message \<notin> set errs"
proof -
  have m: "default_flags_message \<noteq> ''missing translation for '' @ k"
    "default_flags_message \<noteq> ''missing abbreviated translation for '' @ k"
    by (rule neq_by_hd, simp add: default_flags_message_def)+
  show ?thesis
    using assms m
    by (auto simp add: translation_check_def push_def Let_def split: option.splits if_splits)
qed

lemma translation_loop_no_flags:
  "translation_loop ds en ja ks errors = Inr errs \<Longrightarrow> default_flags_message \<notin> set errors
   \<Longrightarrow> default_flags_message \<notin> set errs"
proof (induction ks arbitrary: errors)
  case Nil
  then show ?case by simp
next
  case (Cons k ks)
  then show ?case
    by (auto split: sum.splits dest: translation_check_no_flags)
qed

lemma validateContents_no_flags:
  assumes "validateContents je D = Inr errs"
  shows "default_flags_message \<notin> set errs"
proof -
  let ?songs = "concat (map (song_errors je (meta D)) (songs D))"
  have s: "default_flags_message \<notin> set ?songs"
    by (simp add: song_errors_no_flags)
  show ?thesis
  proof (cases "map_of (i18n D) ''ja''")
    case None
    with assms have "errs = prefix_errors D @ ?songs"
      by (simp add: validateContents_unfold)
    then show ?thesis
      using s prefix_errors_no_flags [of D] by simp
  next
    case (Some ja)
    with assms obtain t where
      t: "translation_loop (map key (difficulties (meta D))) (map_of (i18n D) ''en'') ja
            (allKeys (meta D)) (prefix_errors D) = Inr t" and e: "errs = t @ ?songs"
      by (auto simp add: validateContents_unfold split: sum.splits)
    from t prefix_errors_no_flags have "default_flags_message \<notin> set t"
      by (rule translation_loop_no_flags)
    then show ?thesis
      using s e by simp
  qed
qed

lemma prefix_errors_ignores_default_flags:
  "prefix_errors (D\<lparr>defaults := (defaults D)\<lparr>default_flags := fl\<rparr>\<rparr>) = prefix_errors D"
  by (simp add: prefix_errors_def level_max_errors_def default_style_errors_def
      default_difficulties_errors_def bounds_reversed_errors_def bounds_beyond_max_errors_def
      cong: option.case_cong)

lemma validateContents_ignores_default_flags:
  "validateContents je (D\<lparr>defaults := (defaults D)\<lparr>default_flags := fl\<rparr>\<rparr>) = validateContents je D"
  unfolding validateContents_unfold prefix_errors_ignores_default_flags
  by (simp cong: option.case_cong sum.case_cong)

section \<open>A run that completes sees the same jackets afterwards\<close>

lemma song_errors_mono:
  assumes "song_errors je m s = []" "\<And>j. je j \<Longrightarrow> je' j"
  shows "song_errors je' m s = []"
  using assms by (auto simp add: song_errors_def jacket_errors_def split: option.splits if_splits)

lemma validateContents_mono:
  assumes "validateContents je D = Inr []" "\<And>j. je j \<Longrightarrow> je' j"
  shows "validateContents je' D = Inr []"
proof -
  from assms(1) have s: "\<forall>s \<in> set (songs D). song_errors je (meta D) s = []"
    by (auto simp add: validateContents_unfold split: sum.splits)
  have "\<forall>s \<in> set (songs D). song_errors je' (meta D) s = []"
    using s assms(2) song_errors_mono by blast
  then have a: "concat (map (song_errors je' (meta D)) (songs D)) = []"
    by simp
  have b: "concat (map (song_errors je (meta D)) (songs D)) = []"
    using s by simp
  have "validateContents je' D = validateContents je D"
    by (simp only: validateContents_unfold a b)
  with assms(1) show ?thesis
    by simp
qed

lemma process_file_mono:
  assumes "process_file v view je f (out, False) = Inr (out', False)" "\<And>j. je j \<Longrightarrow> je' j"
  shows "process_file v view je' f (out, False) = Inr (out', False)"
proof -
  obtain n d where f: "f = (n, d)" by (cases f)
  from assms(1) have 1: "valid (v d)" "validateContents je (view d) = Inr []"
    "out' = out @ [ConsoleLog (n @ '' looks good!'')]"
    unfolding f by (auto simp add: process_file_def Let_def split: if_splits sum.splits)
  from 1(2) assms(2) have "validateContents je' (view d) = Inr []"
    by (rule validateContents_mono)
  with 1 show ?thesis
    unfolding f by (simp add: process_file_def)
qed

lemma process_file_hasError:
  "process_file v view je f (out, True) = Inr (out', h) \<Longrightarrow> h"
  by (cases f) (auto simp add: process_file_def Let_def split: if_splits sum.splits)

lemma main_loop_hasError:
  "main_loop v view je fs (out, True) = ((out', h), x) \<Longrightarrow> h"
proof (induction fs arbitrary: out)
  case Nil
  then show ?case by simp
next
  case (Cons f fs)
  show ?case
  proof (cases "process_file v view je f (out, True)")
    case (Inl e)
    with Cons.prems show ?thesis by simp
  next
    case (Inr st)
    obtain o1 h1 where st: "st = (o1, h1)" by (cases st)
    with Inr have "h1" using process_file_hasError by blast
    with Cons Inr st show ?thesis by simp
  qed
qed

lemma main_loop_mono:
  assumes "main_loop v view je fs (out, False) = ((out', False), None)" "\<And>j. je j \<Longrightarrow> je' j"
  shows "main_loop v view je' fs (out, False) = ((out', False), None)"
  using assms(1)
proof (induction fs arbitrary: out)
  case Nil
  then show ?case by simp
next
  case (Cons f fs)
  show ?case
  proof (cases "process_file v view je f (out, False)")
    case (Inl e)
    with Cons.prems show ?thesis by simp
  next
    case (Inr st)
    obtain o1 h1 where st: "st = (o1, h1)" by (cases st)
    from Cons.prems Inr st have rest: "main_loop v view je fs (o1, h1) = ((out', False), None)"
      by simp
    have "\<not> h1"
    proof
      assume h1
      with rest have "main_loop v view je fs (o1, True) = ((out', False), None)"
        by simp
      then show False
        by (rule main_loop_hasError)
    qed
    with Inr st have "process_file v view je f (out, False) = Inr (o1, False)"
      by simp
    then have "process_file v view je' f (out, False) = Inr (o1, False)"
      using assms(2) by (rule process_file_mono)
    moreover have "main_loop v view je' fs (o1, False) = ((out', False), None)"
      using rest \<open>\<not> h1\<close> by (intro Cons.IH) simp
    ultimately show ?thesis by simp
  qed
qed

lemma jacketExists_in_written:
  "jacketExists_in a fs j \<Longrightarrow> jacketExists_in a (fs\<lparr>schemaFile := Some ts\<rparr>) j"
  by (simp add: jacketExists_in_def split: if_splits)

lemmas example_defs =
  example_doc_def example_meta_def example_defaults_def example_song_def example_chart_def
  en_locale_def ja_locale_def ko_locale_def example_jackets_def

lemma example_doc_schema_valid: "schema_valid example_doc"
  by (simp add: schema_valid_def example_defs)

lemma example_doc_no_errors: "validateContents example_jackets example_doc = Inr []"
proof -
  have "errors_in_order example_jackets example_doc = []"
    by (simp add: errors_in_order_def level_max_errors_def default_style_errors_def
        default_difficulties_errors_def bounds_reversed_errors_def bounds_beyond_max_errors_def
        translation_errors_def key_errors_def abbr_truthy_def dict_get_def locale_get_def
        own_property_def inherited_def allKeys_def song_errors_def jacket_errors_def
        chart_errors_def chart_style_errors_def chart_diffClass_errors_def chart_level_errors_def
        example_defs)
  then show ?thesis
    by (simp add: validateContents_schema_valid [OF example_doc_schema_valid])
qed

lemma validateContents_needs_abbr:
  "\<not> schema_valid doc_no_abbr \<and> validateContents example_jackets doc_no_abbr = Inl TypeError"
  by (simp add: validateContents_unfold schema_valid_def doc_no_abbr_def example_defs
      translation_check_def allKeys_def locale_get_def own_property_def truthy.simps Let_def)


section \<open>The claims\<close>

text \<open>
  C1, as the code has it.  A document that satisfies the invariants of section 3, and
  in which no chart has draw group 0 when draw groups are in use, yields the empty
  error list.  (A translation or abbreviation is an own entry that is not the empty
  string; see \<open>has_translation\<close>.)
\<close>

theorem consistent_document_has_no_errors:
  assumes "semantic_invariants je D"
    "usesDrawGroups (meta D) = Some True
       \<longrightarrow> (\<forall>s \<in> set (songs D). \<forall>c \<in> set (charts s). drawGroup c \<noteq> Some 0)"
  shows "validateContents je D = Inr []"
proof -
  have songs: "concat (map (song_errors je (meta D)) (songs D)) = []"
    using assms by (simp add: song_errors_invariants)
  have pre: "prefix_errors D = []"
    using assms(1) by (rule prefix_errors_invariants)
  show ?thesis
  proof (cases "map_of (i18n D) ''ja''")
    case None
    then show ?thesis
      using songs pre by (simp add: validateContents_unfold)
  next
    case (Some ja)
    then have "(''ja'', ja) \<in> set (i18n D)"
      by (rule map_of_SomeD)
    with assms(1) obtain en where "map_of (i18n D) ''en'' = Some en"
      "locale_complete (meta D) en" "locale_complete (meta D) ja"
      by (auto simp add: semantic_invariants_def translations_complete_def list_all_iff
          split: option.splits)
    then show ?thesis
      using Some songs pre by (simp add: validateContents_unfold locale_complete_loop)
  qed
qed

text \<open>
  Without the condition on draw group 0 the statement fails: this document satisfies
  every invariant (its one chart has draw group 0, which does not exceed
  \<^verbatim>\<open>lvlMax\<close>), and the validator reports a missing draw group.
\<close>

theorem consistent_document_zero_draw_group:
  "schema_valid doc_draw_group_zero
   \<and> semantic_invariants example_jackets doc_draw_group_zero
   \<and> validateContents example_jackets doc_draw_group_zero = Inr [''Song A is missing a draw group'']
   \<and> validateContents example_jackets doc_draw_group_zero \<noteq> Inr []"
proof -
  have 1: "schema_valid doc_draw_group_zero"
    by (simp add: schema_valid_def doc_draw_group_zero_def example_defs)
  have 2: "semantic_invariants example_jackets doc_draw_group_zero"
    by (simp add: semantic_invariants_def translations_complete_def
      locale_complete_def has_translation_def has_abbreviation_def own_property_def level_bounded_def
      allKeys_def doc_draw_group_zero_def example_defs)
  have 3: "errors_in_order example_jackets doc_draw_group_zero = [''Song A is missing a draw group'']"
    by (simp add: errors_in_order_def level_max_errors_def default_style_errors_def
        default_difficulties_errors_def bounds_reversed_errors_def bounds_beyond_max_errors_def
        translation_errors_def key_errors_def abbr_truthy_def dict_get_def locale_get_def
        own_property_def inherited_def allKeys_def song_errors_def jacket_errors_def
        chart_errors_def chart_style_errors_def chart_diffClass_errors_def chart_level_errors_def
        doc_draw_group_zero_def example_defs)
  show ?thesis
    using 1 2 3 by (simp add: validateContents_schema_valid)
qed

theorem consistent_document_has_no_errors_witness:
  "semantic_invariants example_jackets doc_draw_groups
   \<and> usesDrawGroups (meta doc_draw_groups) = Some True
   \<and> list_all (\<lambda>s. list_all (\<lambda>c. drawGroup c = Some 3) (charts s)) (songs doc_draw_groups)
   \<and> validateContents example_jackets doc_draw_groups = Inr []"
proof -
  have 1: "semantic_invariants example_jackets doc_draw_groups"
    by (simp add: semantic_invariants_def translations_complete_def
      locale_complete_def has_translation_def has_abbreviation_def own_property_def level_bounded_def
      allKeys_def doc_draw_groups_def example_defs)
  have 2: "usesDrawGroups (meta doc_draw_groups) = Some True
       \<longrightarrow> (\<forall>s \<in> set (songs doc_draw_groups). \<forall>c \<in> set (charts s). drawGroup c \<noteq> Some 0)"
    by (simp add: doc_draw_groups_def example_defs)
  have 3: "usesDrawGroups (meta doc_draw_groups) = Some True"
    "list_all (\<lambda>s. list_all (\<lambda>c. drawGroup c = Some 3) (charts s)) (songs doc_draw_groups)"
    by (simp_all add: doc_draw_groups_def example_defs)
  show ?thesis
    using 1 3 consistent_document_has_no_errors [OF 1 2] by simp
qed

text \<open>
  C2, as the code has it.  Only the locale \<^verbatim>\<open>ja\<close> is looked at.  In a
  structurally valid document that has it, a key \<open>k\<close> that is not a name inherited
  from \<^verbatim>\<open>Object.prototype\<close> and lacks a translation in \<^verbatim>\<open>en\<close> or in
  \<^verbatim>\<open>ja\<close> is reported as \<^verbatim>\<open>missing translation for k\<close> at least once
  for each of its occurrences among the styles, difficulty keys and flags; a difficulty
  key lacking an abbreviation in either is reported as
  \<^verbatim>\<open>missing abbreviated translation for k\<close> likewise.
\<close>

theorem missing_translations_reported:
  assumes "schema_valid D" "map_of (i18n D) ''en'' = Some en" "map_of (i18n D) ''ja'' = Some ja"
    "k \<notin> set object_prototype_names"
  shows "\<exists>errs. validateContents je D = Inr errs
           \<and> (\<not> (has_translation en k \<and> has_translation ja k)
                \<longrightarrow> count_list (allKeys (meta D)) k
                      \<le> count_list errs (''missing translation for '' @ k))
           \<and> (k \<in> set (map key (difficulties (meta D)))
                \<and> \<not> (has_abbreviation en k \<and> has_abbreviation ja k)
                \<longrightarrow> count_list (allKeys (meta D)) k
                      \<le> count_list errs (''missing abbreviated translation for '' @ k))"
proof -
  have t: "''missing translation for '' @ k \<in> set (key_errors (meta D) en ja k)"
    if "\<not> (has_translation en k \<and> has_translation ja k)"
    using that assms(4) by (simp add: key_errors_def locale_get_own)
  have a: "''missing abbreviated translation for '' @ k \<in> set (key_errors (meta D) en ja k)"
    if "k \<in> set (map key (difficulties (meta D)))"
      "\<not> (has_abbreviation en k \<and> has_abbreviation ja k)"
    using that assms(4) by (simp add: key_errors_def abbr_truthy_own)
  show ?thesis
    using validateContents_schema_valid [OF assms(1), of je]
      count_list_translation_errors [OF assms(2,3) t, of je]
      count_list_translation_errors [OF assms(2,3) a, of je]
    by simp
qed

text \<open>
  The statement for every non-English locale fails.  The first document has the
  locales \<^verbatim>\<open>en\<close> and \<^verbatim>\<open>ko\<close>, the latter without an entry for the style
  \<^verbatim>\<open>single\<close>; the second has a style \<^verbatim>\<open>constructor\<close> that the locale
  \<^verbatim>\<open>ja\<close> has no own entry for.  Both come back without an error.
\<close>

theorem missing_translations_unreported:
  "schema_valid doc_korean
   \<and> map_of (i18n doc_korean) ''ko'' = Some ko_locale
   \<and> ''single'' \<in> set (allKeys (meta doc_korean))
   \<and> \<not> has_translation ko_locale ''single''
   \<and> validateContents example_jackets doc_korean = Inr []
   \<and> schema_valid doc_constructor
   \<and> map_of (i18n doc_constructor) ''ja'' = Some ja_locale
   \<and> ''constructor'' \<in> set (allKeys (meta doc_constructor))
   \<and> \<not> has_translation ja_locale ''constructor''
   \<and> validateContents example_jackets doc_constructor = Inr []"
proof -
  have 1: "schema_valid doc_korean" "schema_valid doc_constructor"
    by (simp_all add: schema_valid_def doc_korean_def doc_constructor_def example_defs)
  have 2: "map_of (i18n doc_korean) ''ko'' = Some ko_locale"
    "''single'' \<in> set (allKeys (meta doc_korean))"
    "\<not> has_translation ko_locale ''single''"
    "map_of (i18n doc_constructor) ''ja'' = Some ja_locale"
    "''constructor'' \<in> set (allKeys (meta doc_constructor))"
    "\<not> has_translation ja_locale ''constructor''"
    by (simp_all add: doc_korean_def doc_constructor_def allKeys_def has_translation_def
        own_property_def example_defs)
  have 3: "errors_in_order example_jackets doc_korean = []"
    by (simp add: errors_in_order_def level_max_errors_def default_style_errors_def
        default_difficulties_errors_def bounds_reversed_errors_def bounds_beyond_max_errors_def
        translation_errors_def song_errors_def jacket_errors_def
        chart_errors_def chart_style_errors_def chart_diffClass_errors_def chart_level_errors_def
        doc_korean_def example_defs)
  have 4: "errors_in_order example_jackets doc_constructor = []"
    by (simp add: errors_in_order_def level_max_errors_def default_style_errors_def
        default_difficulties_errors_def bounds_reversed_errors_def bounds_beyond_max_errors_def
        translation_errors_def key_errors_def abbr_truthy_def dict_get_def locale_get_def
        own_property_def inherited_def object_prototype_names_def allKeys_def
        song_errors_def jacket_errors_def
        chart_errors_def chart_style_errors_def chart_diffClass_errors_def chart_level_errors_def
        doc_constructor_def example_defs)
  show ?thesis
    using 1 2 3 4 by (simp add: validateContents_schema_valid)
qed

theorem missing_translations_reported_witness:
  "schema_valid doc_untranslated
   \<and> ''single'' \<notin> set object_prototype_names
   \<and> \<not> has_translation \<lparr>strings = [(''basic'', ''BASIC'')], abbr = Some []\<rparr> ''single''
   \<and> count_list (allKeys (meta doc_untranslated)) ''single'' = 1
   \<and> (\<exists>errs. validateContents example_jackets doc_untranslated = Inr errs
         \<and> 1 \<le> count_list errs ''missing translation for single'')
   \<and> ''basic'' \<notin> set object_prototype_names
   \<and> \<not> has_abbreviation \<lparr>strings = [(''basic'', ''BASIC'')], abbr = Some []\<rparr> ''basic''
   \<and> count_list (allKeys (meta doc_untranslated)) ''basic'' = 1
   \<and> (\<exists>errs. validateContents example_jackets doc_untranslated = Inr errs
         \<and> 1 \<le> count_list errs ''missing abbreviated translation for basic'')"
proof -
  let ?ja = "\<lparr>strings = [(''basic'', ''BASIC'')], abbr = Some []\<rparr>"
  have h: "schema_valid doc_untranslated"
    "map_of (i18n doc_untranslated) ''en'' = Some en_locale"
    "map_of (i18n doc_untranslated) ''ja'' = Some ?ja"
    by (simp_all add: schema_valid_def doc_untranslated_def example_defs)
  have p: "''single'' \<notin> set object_prototype_names" "''basic'' \<notin> set object_prototype_names"
    by (simp_all add: object_prototype_names_def)
  have n: "\<not> has_translation ?ja ''single''"
    "count_list (allKeys (meta doc_untranslated)) ''single'' = 1"
    "\<not> has_abbreviation ?ja ''basic''"
    "count_list (allKeys (meta doc_untranslated)) ''basic'' = 1"
    "''basic'' \<in> set (map key (difficulties (meta doc_untranslated)))"
    by (simp_all add: has_translation_def has_abbreviation_def own_property_def allKeys_def
        doc_untranslated_def example_defs)
  show ?thesis
    using h(1) p n missing_translations_reported [OF h p(1), of example_jackets]
      missing_translations_reported [OF h p(2), of example_jackets]
    by auto
qed

text \<open>
  C3.  For a file that fails the schema, the turn of the loop prints the schema
  validator's errors and nothing else on the error stream, then the line
  \<^verbatim>\<open><file> has issues!\<close>, and sets \<^verbatim>\<open>hasError\<close>.  The result does
  not depend on \<open>view\<close> or on the jackets: \<open>validateContents\<close> is not run, so
  no consistency error can appear (in the witness it would even throw).
\<close>

theorem schema_failure_reports_schema_errors_only:
  assumes "\<not> valid (validateJSONSchema songData)"
  shows "process_file validateJSONSchema view je (fileName, songData) (out, hasError)
     = Inr (out @ map ConsoleError (result_errors (validateJSONSchema songData))
              @ [ConsoleLog (fileName @ '' has issues!'')], True)"
  using assms by (simp add: process_file_def)

theorem schema_failure_reports_schema_errors_only_witness:
  "\<not> valid (example_validator 0)
   \<and> validateContents example_jackets (example_view 0) = Inl TypeError
   \<and> process_file example_validator example_view example_jackets (''a.json'', 0) ([], False)
       = Inr ([ConsoleError ''instance.songs is not of a type(s) array'',
               ConsoleLog ''a.json has issues!''], True)"
proof -
  have h: "\<not> valid (example_validator 0)"
    by (simp add: example_validator_def)
  have t: "validateContents example_jackets (example_view 0) = Inl TypeError"
    using validateContents_needs_abbr by (simp add: example_view_def)
  show ?thesis
    using h t schema_failure_reports_schema_errors_only
      [where validateJSONSchema = example_validator and songData = 0 and view = example_view
         and je = example_jackets and fileName = "''a.json''" and out = "[]" and hasError = False]
    by (simp add: example_validator_def)
qed

text \<open>
  C4.  In a structurally valid document whose \<^verbatim>\<open>meta.usesDrawGroups\<close> is true,
  every chart of every song that has no \<^verbatim>\<open>drawGroup\<close> makes the validator
  return (without an exception) a list that holds
  \<^verbatim>\<open><song name> is missing a draw group\<close> for that song.
\<close>

theorem missing_draw_group_reported:
  assumes "schema_valid D" "usesDrawGroups (meta D) = Some True"
    "s \<in> set (songs D)" "c \<in> set (charts s)" "drawGroup c = None"
  shows "\<exists>errs. validateContents je D = Inr errs
                \<and> name s @ '' is missing a draw group'' \<in> set errs"
proof -
  have "\<not> truthy (js_number (drawGroup c))"
    using assms(5) by (simp add: js_number_def)
  with assms(2-4) have "name s @ '' is missing a draw group''
      \<in> set (concat (map (song_errors je (meta D)) (songs D)))"
    by (rule draw_group_reported)
  then show ?thesis
    using validateContents_schema_valid [OF assms(1), of je] by (simp add: errors_in_order_def)
qed

theorem missing_draw_group_reported_witness:
  "schema_valid doc_draw_group_absent
   \<and> usesDrawGroups (meta doc_draw_group_absent) = Some True
   \<and> example_song \<in> set (songs doc_draw_group_absent)
   \<and> example_chart \<in> set (charts example_song)
   \<and> drawGroup example_chart = None
   \<and> (\<exists>errs. validateContents example_jackets doc_draw_group_absent = Inr errs
              \<and> name example_song @ '' is missing a draw group'' \<in> set errs)"
proof -
  have h: "schema_valid doc_draw_group_absent"
    "usesDrawGroups (meta doc_draw_group_absent) = Some True"
    "example_song \<in> set (songs doc_draw_group_absent)"
    "example_chart \<in> set (charts example_song)"
    "drawGroup example_chart = None"
    by (simp_all add: schema_valid_def doc_draw_group_absent_def example_doc_def example_meta_def
        example_song_def example_chart_def en_locale_def ja_locale_def)
  show ?thesis
    using h missing_draw_group_reported [OF h, of example_jackets] by simp
qed

text \<open>
  C5.  On a structurally valid document the validator returns a list of errors: no
  access faults, and both loops end (the function is total on finite documents).  The
  precondition is needed: \<open>validateContents_needs_abbr\<close> shows that without
  \<^verbatim>\<open>$abbr\<close> in the English locale the access \<^verbatim>\<open>en["$abbr"][key]\<close> throws.
\<close>

theorem validateContents_never_throws:
  "schema_valid D \<Longrightarrow> \<exists>errs. validateContents je D = Inr errs"
  by (simp add: validateContents_schema_valid)

theorem validateContents_never_throws_witness:
  "schema_valid example_doc \<and> (\<exists>errs. validateContents example_jackets example_doc = Inr errs)"
proof -
  have h: "schema_valid example_doc"
    by (simp add: schema_valid_def example_defs)
  show ?thesis
    using h validateContents_never_throws [OF h, of example_jackets] by simp
qed

text \<open>
  C6.  Whether the default flags are among \<^verbatim>\<open>meta.flags\<close> is never checked:
  two documents that differ only in \<^verbatim>\<open>defaults.flags\<close> get the same result, and
  no returned list holds the message of the check that the source has commented out.
\<close>

theorem default_flags_never_checked:
  "validateContents je (D\<lparr>defaults := (defaults D)\<lparr>default_flags := fl\<rparr>\<rparr>) = validateContents je D
   \<and> (\<forall>errs. validateContents je D = Inr errs
         \<longrightarrow> ''some default flags are missing from meta'' \<notin> set errs)"
  using validateContents_ignores_default_flags [where je = je and D = D and fl = fl]
    validateContents_no_flags [where je = je and D = D]
  by (simp add: default_flags_message_def)

theorem default_flags_never_checked_witness:
  "''plus'' \<notin> set (flags (meta example_doc))
   \<and> validateContents example_jackets
        (example_doc\<lparr>defaults := (defaults example_doc)\<lparr>default_flags := [''plus'']\<rparr>\<rparr>) = Inr []
   \<and> validateContents example_jackets example_doc = Inr []"
proof -
  have 1: "''plus'' \<notin> set (flags (meta example_doc))"
    by (simp add: example_defs)
  show ?thesis
    using 1 default_flags_never_checked
      [where je = example_jackets and D = example_doc and fl = "[''plus'']"]
    by (simp add: example_doc_no_errors)
qed

text \<open>
  C7.  Running the script again on the files the first run left behind gives the same
  console output (so the same error sequence for every document), the same outcome, and
  leaves the same files, the generated bindings among them.  The directory listing, the
  imported JSON values, the schema validator and the bindings generator are functions of
  the files here.  The one file a run writes can be named by a jacket, and is then read
  by \<^verbatim>\<open>existsSync\<close>; a run that writes it found no error, so the second run
  finds none either.
\<close>

theorem run_twice_same_result:
  "main validateJSONSchema view compile atSchemaLocation
     (snd (main validateJSONSchema view compile atSchemaLocation fs))
   = main validateJSONSchema view compile atSchemaLocation fs"
proof -
  let ?loop = "main_loop validateJSONSchema view (jacketExists_in atSchemaLocation fs)
                 (songFiles fs) ([], False)"
  obtain out h x where l: "?loop = ((out, h), x)"
    by (metis surj_pair)
  show ?thesis
  proof (cases "x = None \<and> \<not> h")
    case False
    then have "snd (main validateJSONSchema view compile atSchemaLocation fs) = fs"
      using l by (auto simp add: main_def split: option.splits)
    then show ?thesis by simp
  next
    case True
    let ?fs1 = "fs\<lparr>schemaFile := Some (compile ''SongData'' bannerComment)\<rparr>"
    from True l have l0: "?loop = ((out, False), None)" by simp
    then have m: "snd (main validateJSONSchema view compile atSchemaLocation fs) = ?fs1"
      by (simp add: main_def Let_def)
    have "main_loop validateJSONSchema view (jacketExists_in atSchemaLocation ?fs1)
            (songFiles fs) ([], False) = ((out, False), None)"
      using l0 by (rule main_loop_mono) (rule jacketExists_in_written)
    then have "main validateJSONSchema view compile atSchemaLocation ?fs1
               = main validateJSONSchema view compile atSchemaLocation fs"
      using l0 by (simp add: main_def Let_def)
    then show ?thesis
      unfolding m .
  qed
qed

theorem run_twice_same_result_witness:
  "main example_validator example_view example_compile example_atSchemaLocation
     (snd (main example_validator example_view example_compile example_atSchemaLocation
             example_files))
   = main example_validator example_view example_compile example_atSchemaLocation example_files
   \<and> fst (main example_validator example_view example_compile example_atSchemaLocation
             example_files)
     = \<lparr>console = [ConsoleLog ''a.json looks good!'', ConsoleLog ''b.json looks good!'',
                    ConsoleLog ''Building schema file'',
                    ConsoleLog ''Schema written to  src/models/SongData.ts''],
        outcome = Completed\<rparr>
   \<and> schemaFile (snd (main example_validator example_view example_compile
                          example_atSchemaLocation example_files))
     = Some (example_compile ''SongData'' bannerComment)"
proof -
  let ?je = "jacketExists_in example_atSchemaLocation example_files"
  have v: "schema_valid doc_generated_jacket"
    by (simp add: schema_valid_def doc_generated_jacket_def example_defs)
  have j: "?je ''a.png''" "?je ''../../models/SongData.ts''"
    by (simp_all add: jacketExists_in_def example_atSchemaLocation_def example_files_def
        example_jackets_def)
  have e: "errors_in_order ?je example_doc = []" "errors_in_order ?je doc_generated_jacket = []"
    using j
    by (simp_all add: errors_in_order_def level_max_errors_def default_style_errors_def
        default_difficulties_errors_def bounds_reversed_errors_def bounds_beyond_max_errors_def
        translation_errors_def key_errors_def abbr_truthy_def dict_get_def locale_get_def
        own_property_def inherited_def allKeys_def song_errors_def jacket_errors_def
        chart_errors_def chart_style_errors_def chart_diffClass_errors_def chart_level_errors_def
        doc_generated_jacket_def example_doc_def example_meta_def example_defaults_def
        example_song_def example_chart_def en_locale_def ja_locale_def)
  have c: "validateContents ?je example_doc = Inr []"
    "validateContents ?je doc_generated_jacket = Inr []"
    using e
    by (simp_all add: validateContents_schema_valid [OF example_doc_schema_valid]
        validateContents_schema_valid [OF v])
  have l: "main_loop example_validator example_view ?je (songFiles example_files) ([], False)
        = (([ConsoleLog ''a.json looks good!'', ConsoleLog ''b.json looks good!''], False), None)"
    using c by (simp add: example_files_def process_file_def example_validator_def example_view_def)
  have m: "main example_validator example_view example_compile example_atSchemaLocation example_files
        = (\<lparr>console = [ConsoleLog ''a.json looks good!'', ConsoleLog ''b.json looks good!'',
                         ConsoleLog ''Building schema file'',
                         ConsoleLog ''Schema written to  src/models/SongData.ts''],
             outcome = Completed\<rparr>,
           example_files\<lparr>schemaFile := Some (example_compile ''SongData'' bannerComment)\<rparr>)"
    using l by (simp add: main_def Let_def schemaLocation_def)
  show ?thesis
    using run_twice_same_result
      [where validateJSONSchema = example_validator and view = example_view
         and compile = example_compile and atSchemaLocation = example_atSchemaLocation
         and fs = example_files]
    by (simp add: m)
qed

text \<open>
  C8.  On a structurally valid document the errors come in a fixed order: level-max
  sanity, default style, default difficulties, bounds reversed, bounds beyond max, then
  the translation errors key by key, then for each song in document order its jacket
  error and, for each of its charts in document order, the style, diffClass and
  draw-group or level error.
\<close>

theorem errors_follow_check_order:
  "schema_valid D \<Longrightarrow>
   validateContents je D =
     Inr (level_max_errors D @ default_style_errors D @ default_difficulties_errors D
          @ bounds_reversed_errors D @ bounds_beyond_max_errors D
          @ translation_errors D
          @ concat (map (\<lambda>s. jacket_errors je s
                              @ concat (map (\<lambda>c. chart_style_errors (meta D) s c
                                                  @ chart_diffClass_errors (meta D) s c
                                                  @ chart_level_errors (meta D) s c) (charts s)))
                     (songs D)))"
  using validateContents_schema_valid [of D je]
  by (simp add: errors_in_order_def song_errors_def chart_errors_def cong: map_cong)

theorem errors_follow_check_order_witness:
  "schema_valid doc_many_errors
   \<and> validateContents example_jackets doc_many_errors =
       Inr [''max level is below 1'',
            ''default style is not listed in meta'',
            ''some default difficulties are missing from meta'',
            ''default level bounds are reversed'',
            ''default level bounds are beyond max level'',
            ''missing translation for basic'',
            ''missing abbreviated translation for basic'',
            ''missing translation for shock'',
            ''missing jacket image missing.png'',
            ''unrecognized style '' @ [CHR 0x22] @ ''double'' @ [CHR 0x22] @ '' used by Song A'',
            ''unrecognized diffClass '' @ [CHR 0x22] @ ''expert'' @ [CHR 0x22] @ '' used by Song A'',
            ''Song A has chart above level max'',
            ''Song B has chart above level max'',
            ''unrecognized style '' @ [CHR 0x22] @ ''couple'' @ [CHR 0x22] @ '' used by Song B'',
            ''Song B has chart above level max'']"
proof -
  have h: "schema_valid doc_many_errors"
    by (simp add: schema_valid_def doc_many_errors_def example_defs)
  have 1: "level_max_errors doc_many_errors = [''max level is below 1'']"
    "default_style_errors doc_many_errors = [''default style is not listed in meta'']"
    "default_difficulties_errors doc_many_errors
       = [''some default difficulties are missing from meta'']"
    "bounds_reversed_errors doc_many_errors = [''default level bounds are reversed'']"
    "bounds_beyond_max_errors doc_many_errors = [''default level bounds are beyond max level'']"
    by (simp_all add: level_max_errors_def default_style_errors_def
        default_difficulties_errors_def bounds_reversed_errors_def bounds_beyond_max_errors_def
        doc_many_errors_def)
  have 2: "translation_errors doc_many_errors
       = [''missing translation for basic'', ''missing abbreviated translation for basic'',
          ''missing translation for shock'']"
    by (simp add: translation_errors_def key_errors_def abbr_truthy_def dict_get_def
        locale_get_def own_property_def inherited_def object_prototype_names_def allKeys_def
        doc_many_errors_def example_defs)
  have 3: "songs doc_many_errors
       = [\<lparr>name = ''Song A'', jacket = Some ''missing.png'',
           charts = [\<lparr>style = ''double'', diffClass = ''expert'', lvl = Some 15,
                      drawGroup = None\<rparr>]\<rparr>,
          \<lparr>name = ''Song B'', jacket = None,
           charts = [example_chart, example_chart\<lparr>style := ''couple''\<rparr>]\<rparr>]"
    "meta doc_many_errors
       = \<lparr>styles = [''single''], difficulties = [\<lparr>key = ''basic''\<rparr>], flags = [''shock''],
          lvlMax = 0, usesDrawGroups = None\<rparr>"
    by (simp_all add: doc_many_errors_def)
  show ?thesis
    using h errors_follow_check_order [OF h, of example_jackets]
    unfolding 1 2 3
    by (simp add: jacket_errors_def chart_style_errors_def chart_diffClass_errors_def
        chart_level_errors_def example_defs)
qed

text \<open>
  C9.  With \<^verbatim>\<open>meta.usesDrawGroups\<close> true, a chart whose \<^verbatim>\<open>drawGroup\<close> is
  present and equal to 0 is reported as \<^verbatim>\<open><song name> is missing a draw group\<close>:
  the presence test is a truthiness test, and 0 is falsy, whatever \<^verbatim>\<open>lvlMax\<close> is.
\<close>

theorem draw_group_zero_reported_missing:
  assumes "schema_valid D" "usesDrawGroups (meta D) = Some True"
    "s \<in> set (songs D)" "c \<in> set (charts s)" "drawGroup c = Some 0"
  shows "\<exists>errs. validateContents je D = Inr errs
                \<and> name s @ '' is missing a draw group'' \<in> set errs"
proof -
  have "\<not> truthy (js_number (drawGroup c))"
    using assms(5) by (simp add: js_number_def)
  with assms(2-4) have "name s @ '' is missing a draw group''
      \<in> set (concat (map (song_errors je (meta D)) (songs D)))"
    by (rule draw_group_reported)
  then show ?thesis
    using validateContents_schema_valid [OF assms(1), of je] by (simp add: errors_in_order_def)
qed

theorem draw_group_zero_reported_missing_witness:
  "schema_valid doc_draw_group_zero
   \<and> usesDrawGroups (meta doc_draw_group_zero) = Some True
   \<and> example_song\<lparr>charts := [example_chart\<lparr>drawGroup := Some 0\<rparr>]\<rparr> \<in> set (songs doc_draw_group_zero)
   \<and> example_chart\<lparr>drawGroup := Some 0\<rparr>
       \<in> set (charts (example_song\<lparr>charts := [example_chart\<lparr>drawGroup := Some 0\<rparr>]\<rparr>))
   \<and> drawGroup (example_chart\<lparr>drawGroup := Some 0\<rparr>) = Some 0
   \<and> 0 \<le> lvlMax (meta doc_draw_group_zero)
   \<and> (\<exists>errs. validateContents example_jackets doc_draw_group_zero = Inr errs
              \<and> ''Song A is missing a draw group'' \<in> set errs)"
proof -
  have h: "schema_valid doc_draw_group_zero"
    "usesDrawGroups (meta doc_draw_group_zero) = Some True"
    "example_song\<lparr>charts := [example_chart\<lparr>drawGroup := Some 0\<rparr>]\<rparr> \<in> set (songs doc_draw_group_zero)"
    "example_chart\<lparr>drawGroup := Some 0\<rparr>
       \<in> set (charts (example_song\<lparr>charts := [example_chart\<lparr>drawGroup := Some 0\<rparr>]\<rparr>))"
    "drawGroup (example_chart\<lparr>drawGroup := Some 0\<rparr>) = Some 0"
    by (simp_all add: schema_valid_def doc_draw_group_zero_def example_defs)
  have n: "name (example_song\<lparr>charts := [example_chart\<lparr>drawGroup := Some 0\<rparr>]\<rparr>) = ''Song A''"
    by (simp add: example_song_def)
  have l: "0 \<le> lvlMax (meta doc_draw_group_zero)"
    by (simp add: doc_draw_group_zero_def example_defs)
  show ?thesis
    using h l draw_group_zero_reported_missing [OF h, of example_jackets] unfolding n by simp
qed

text \<open>
  C10.  \<open>getDiffAbbr\<close> reads the abbreviation from the \<^verbatim>\<open>$abbr\<close> dictionary
  of the English locale: when that locale and its dictionary exist the result is
  \<^verbatim>\<open>en["$abbr"][diffClass]\<close> (the own entry when there is one); the call
  throws exactly when they do not exist, and never turns to another locale; and two
  game data with the same English locale give the same result, whatever other locales
  they hold.
\<close>

theorem getDiffAbbr_english_only:
  "(map_of (i18n gameData) ''en'' = Some en \<and> abbr en = Some d
      \<longrightarrow> getDiffAbbr gameData dc = Inr (dict_get d dc)
          \<and> (\<forall>a. map_of d dc = Some a \<longrightarrow> getDiffAbbr gameData dc = Inr (JString a)))
   \<and> ((getDiffAbbr gameData dc = Inl TypeError)
        = (\<forall>en d. \<not> (map_of (i18n gameData) ''en'' = Some en \<and> abbr en = Some d)))
   \<and> (map_of (i18n other) ''en'' = map_of (i18n gameData) ''en''
      \<longrightarrow> getDiffAbbr other dc = getDiffAbbr gameData dc)"
  by (auto simp add: getDiffAbbr_def dict_get_def split: option.splits)

theorem getDiffAbbr_english_only_witness:
  "map_of [(''ja'', ja_locale), (''ko'', ko_locale), (''en'', en_locale)] ''en'' = Some en_locale
   \<and> abbr en_locale = Some [(''basic'', ''B'')]
   \<and> abbr ja_locale = Some [(''basic'', ''b'')]
   \<and> getDiffAbbr (example_doc\<lparr>i18n := [(''ja'', ja_locale), (''ko'', ko_locale), (''en'', en_locale)]\<rparr>)
        ''basic'' = Inr (JString ''B'')
   \<and> getDiffAbbr example_doc ''basic'' = Inr (JString ''B'')"
proof -
  let ?g = "example_doc\<lparr>i18n := [(''ja'', ja_locale), (''ko'', ko_locale), (''en'', en_locale)]\<rparr>"
  have 1: "map_of (i18n ?g) ''en'' = Some en_locale"
    "map_of (i18n example_doc) ''en'' = Some en_locale"
    by (simp_all add: example_doc_def)
  have 2: "abbr en_locale = Some [(''basic'', ''B'')]" "abbr ja_locale = Some [(''basic'', ''b'')]"
    by (simp_all add: en_locale_def ja_locale_def)
  have 3: "dict_get [(''basic'', ''B'')] ''basic'' = JString ''B''"
    by (simp add: dict_get_def)
  show ?thesis
    using 1 2 3 getDiffAbbr_english_only
      [where gameData = ?g and en = en_locale and d = "[(''basic'', ''B'')]" and dc = "''basic''"
         and other = example_doc]
    by simp
qed

end
